theory Spec2Isabelle
  imports Main "HOL-Library.Word"
begin

section \<open>Values, exceptions, log and stored state\<close>

text \<open>
  The mentor service backend: \<^verbatim>\<open>services/mentor_service.py\<close> and the two FastAPI
  routers \<^verbatim>\<open>presentations/routers/mentor_time_router.py\<close> and
  \<^verbatim>\<open>presentations/routers/student_router.py\<close>.

  A UUID is a 128-bit value. A \<^verbatim>\<open>datetime.time\<close> is the number of microseconds since
  midnight, a \<^verbatim>\<open>datetime\<close> the number of microseconds since the epoch; the code only
  stores, copies and compares them. Python strings are kept as their UTF-8 bytes: the
  code only copies and compares them, and the encoding is injective.
\<close>

type_synonym uuid = "128 word"
type_synonym time = nat
type_synonym datetime = int

text \<open>
  The exceptions the handlers tell apart: \<^verbatim>\<open>ValueError\<close> (with its message),
  FastAPI's \<^verbatim>\<open>HTTPException(status_code, detail)\<close>, and \<open>Exception m\<close> for every
  other exception class, \<open>m\<close> being what \<^verbatim>\<open>str(e)\<close> gives.
\<close>

datatype exn =
    ValueError string
  | HTTPException nat string
  | Exception string

fun decimal :: "nat \<Rightarrow> string" where
  "decimal n =
     (if n < 10 then [char_of (48 + n)]
      else decimal (n div 10) @ [char_of (48 + n mod 10)])"

declare decimal.simps [simp del]

text \<open>
  \<^verbatim>\<open>str(e)\<close>. For an \<^verbatim>\<open>HTTPException\<close> it is Starlette's
  \<^verbatim>\<open>f"{self.status_code}: {self.detail}"\<close>.
\<close>

fun str :: "exn \<Rightarrow> string" where
  "str (ValueError m) = m"
| "str (HTTPException code detail) = decimal code @ '': '' @ detail"
| "str (Exception m) = m"

text \<open>
  The request models of the two routers (pydantic \<^verbatim>\<open>BaseModel\<close> classes), already
  validated. The two update models have only optional fields with default \<^verbatim>\<open>None\<close>;
  \<open>fields_set\<close> is pydantic's record of the field names the body supplied.
\<close>

datatype CreateMentorTimeRequestPostRequest =
  CreateMentorTimeRequestPostRequest
    (cmt_day: int) (cmt_time_start: time) (cmt_time_end: time) (cmt_mentor_id: uuid)

datatype MentorTimeUpdateRequest =
  MentorTimeUpdateRequest
    (mtu_day: "int option") (mtu_time_start: "time option") (mtu_time_end: "time option")
    (mtu_mentor_id: "uuid option") (mtu_fields_set: "string set")

datatype SendMessageRequestPostRequest =
  SendMessageRequestPostRequest (smr_mentor_id: uuid) (smr_description: string)

datatype SendCallRequestPostRequest =
  SendCallRequestPostRequest (scr_mentor_id: uuid) (scr_description: string)
    (scr_call_time: datetime)

datatype RequestUpdateRequest =
  RequestUpdateRequest
    (ru_call_type: "bool option") (ru_mentor_id: "uuid option") (ru_guest_id: "uuid option")
    (ru_description: "string option") (ru_call_time: "datetime option")
    (ru_response: "int option") (ru_fields_set: "string set")

text \<open>
  The dictionaries \<^verbatim>\<open>req.dict(exclude_unset=True)\<close> produces, one typed dictionary per
  update model: a key is either missing (\<open>None\<close>) or present with its value
  (\<open>Some v\<close>, where \<open>v = None\<close> is Python's \<^verbatim>\<open>None\<close>). Neither has a key \<^verbatim>\<open>id\<close>.
\<close>

datatype MentorTimePatch =
  MentorTimePatch
    (p_day: "int option option") (p_time_start: "time option option")
    (p_time_end: "time option option") (p_mentor_id: "uuid option option")

datatype RequestPatch =
  RequestPatch
    (q_call_type: "bool option option") (q_mentor_id: "uuid option option")
    (q_guest_id: "uuid option option") (q_description: "string option option")
    (q_call_time: "datetime option option") (q_response: "int option option")

text \<open>
  A log line of loguru: its level, the f-string's text with the placeholders left in,
  and the values of the placeholders in order.
\<close>

datatype level = INFO | WARNING | ERROR

datatype arg =
    AUuid uuid
  | AStr string
  | AInt int
  | ADatetime datetime
  | AMentorTimePatch MentorTimePatch
  | ARequestPatch RequestPatch

datatype log_entry = Log level string "arg list"

text \<open>
  The rows of the three tables (the ORM classes \<^verbatim>\<open>Mentor\<close>, \<^verbatim>\<open>MentorTime\<close>,
  \<^verbatim>\<open>Request\<close>, read by the code through the attributes below). An attribute a PATCH
  can assign holds what was last assigned to it, which can be Python's \<^verbatim>\<open>None\<close>.
\<close>

record Mentor =
  m_id :: uuid
  m_telegram_id :: string
  m_name :: string
  m_info :: string

record MentorTime =
  mt_id :: uuid
  mt_day :: "int option"
  mt_time_start :: "time option"
  mt_time_end :: "time option"
  mt_mentor_id :: "uuid option"

record Request =
  rq_id :: uuid
  rq_call_type :: "bool option"
  rq_time_sended :: "datetime option"
  rq_mentor_id :: "uuid option"
  rq_guest_id :: "uuid option"
  rq_description :: "string option"
  rq_call_time :: "datetime option"
  rq_response :: "int option"

record state =
  log :: "log_entry list"
  mentor_table :: "Mentor list"
  mentor_time_table :: "MentorTime list"
  request_table :: "Request list"

text \<open>
  A call that may raise and may change the state: it returns the exception (\<open>Inl\<close>) or
  the value (\<open>Inr\<close>), and the state it leaves.
\<close>

type_synonym 'a io = "state \<Rightarrow> (exn + 'a) \<times> state"

definition logger :: "level \<Rightarrow> string \<Rightarrow> arg list \<Rightarrow> state \<Rightarrow> state" where
  "logger lv text args st = st\<lparr>log := log st @ [Log lv text args]\<rparr>"

section \<open>services/mentor\_service.py\<close>

text \<open>
  \<^verbatim>\<open>MentorRepository\<close> is not part of the sources; the service receives it as a
  parameter, one field per method the service calls.
\<close>

record MentorRepository =
  repo_get_all_mentors :: "Mentor list io"
  repo_create_mentor :: "string \<Rightarrow> string \<Rightarrow> string \<Rightarrow> uuid io"
  repo_get_mentor_by_id :: "uuid \<Rightarrow> Mentor option io"
  repo_get_mentor_by_tg_id :: "string \<Rightarrow> Mentor option io"

text \<open>
  The four log texts of the service are Russian; they are given as their UTF-8 bytes.
  In order: "Mentory ne naideny"; "Tovarishch {name} uspeshno posvyashchyon v mentory.";
  "Tovarishcha mentora s ID {mentor_id} ne udalos' naiti."; "Tovarishcha mentora s
  telegoi {tg_id} ne udalos' naiti.".
\<close>

definition msg_mentors_not_found :: string where
  "msg_mentors_not_found = map char_of
     [208, 156, 208, 181, 208, 189, 209, 130, 208, 190, 209, 128, 209, 139, 32, 208, 189,
      208, 181, 32, 208, 189, 208, 176, 208, 185, 208, 180, 208, 181, 208, 189, 209,
      139 :: nat]"

definition msg_mentor_created :: string where
  "msg_mentor_created = map char_of
     [208, 162, 208, 190, 208, 178, 208, 176, 209, 128, 208, 184, 209, 137, 32, 123, 110,
      97, 109, 101, 125, 32, 209, 131, 209, 129, 208, 191, 208, 181, 209, 136, 208, 189,
      208, 190, 32, 208, 191, 208, 190, 209, 129, 208, 178, 209, 143, 209, 137, 209, 145,
      208, 189, 32, 208, 178, 32, 208, 188, 208, 181, 208, 189, 209, 130, 208, 190, 209,
      128, 209, 139, 46 :: nat]"

definition msg_mentor_id_not_found :: string where
  "msg_mentor_id_not_found = map char_of
     [208, 162, 208, 190, 208, 178, 208, 176, 209, 128, 208, 184, 209, 137, 208, 176, 32,
      208, 188, 208, 181, 208, 189, 209, 130, 208, 190, 209, 128, 208, 176, 32, 209, 129,
      32, 73, 68, 32, 123, 109, 101, 110, 116, 111, 114, 95, 105, 100, 125, 32, 208, 189,
      208, 181, 32, 209, 131, 208, 180, 208, 176, 208, 187, 208, 190, 209, 129, 209, 140,
      32, 208, 189, 208, 176, 208, 185, 209, 130, 208, 184, 46 :: nat]"

definition msg_mentor_tg_not_found :: string where
  "msg_mentor_tg_not_found = map char_of
     [208, 162, 208, 190, 208, 178, 208, 176, 209, 128, 208, 184, 209, 137, 208, 176, 32,
      208, 188, 208, 181, 208, 189, 209, 130, 208, 190, 209, 128, 208, 176, 32, 209, 129,
      32, 209, 130, 208, 181, 208, 187, 208, 181, 208, 179, 208, 190, 208, 185, 32, 123,
      116, 103, 95, 105, 100, 125, 32, 208, 189, 208, 181, 32, 209, 131, 208, 180, 208,
      176, 208, 187, 208, 190, 209, 129, 209, 140, 32, 208, 189, 208, 176, 208, 185, 209,
      130, 208, 184, 46 :: nat]"

text \<open>
  \<^verbatim>\<open>get_all_mentors\<close>: the repository's result is returned as it is; an empty list
  (\<^verbatim>\<open>not mentors\<close>) is logged as a warning first. An exception of the repository
  leaves the method at the call.
\<close>

definition get_all_mentors :: "MentorRepository \<Rightarrow> Mentor list io" where
  "get_all_mentors self st =
     (case repo_get_all_mentors self st of
        (Inl e, st1) \<Rightarrow> (Inl e, st1)
      | (Inr mentors, st1) \<Rightarrow>
          (Inr mentors,
           if mentors = [] then logger WARNING msg_mentors_not_found [] st1 else st1))"

definition create_mentor :: "MentorRepository \<Rightarrow> string \<Rightarrow> string \<Rightarrow> string \<Rightarrow> uuid io" where
  "create_mentor self tg_id name info st =
     (case repo_create_mentor self tg_id name info st of
        (Inl e, st1) \<Rightarrow> (Inl e, st1)
      | (Inr mentor_id, st1) \<Rightarrow>
          (Inr mentor_id, logger INFO msg_mentor_created [AStr name] st1))"

definition get_mentor_by_id :: "MentorRepository \<Rightarrow> uuid \<Rightarrow> Mentor option io" where
  "get_mentor_by_id self mentor_id st =
     (case repo_get_mentor_by_id self mentor_id st of
        (Inl e, st1) \<Rightarrow> (Inl e, st1)
      | (Inr mentor, st1) \<Rightarrow>
          (Inr mentor,
           if mentor = None
           then logger WARNING msg_mentor_id_not_found [AUuid mentor_id] st1 else st1))"

definition get_mentor_by_tg_id :: "MentorRepository \<Rightarrow> string \<Rightarrow> Mentor option io" where
  "get_mentor_by_tg_id self tg_id st =
     (case repo_get_mentor_by_tg_id self tg_id st of
        (Inl e, st1) \<Rightarrow> (Inl e, st1)
      | (Inr mentor, st1) \<Rightarrow>
          (Inr mentor,
           if mentor = None
           then logger WARNING msg_mentor_tg_not_found [AStr tg_id] st1 else st1))"

text \<open>
  Modelled from the spec: \<^verbatim>\<open>MentorRepository\<close> (section 4.3), a thin accessor over the
  mentor table. \<open>Create\<close> inserts a row under a new id and returns the id; \<open>GetAll\<close>
  returns every row; \<open>GetById\<close> and \<open>GetByTelegramId\<close> return the matching row or
  absent. The new id is an input (\<open>new_id\<close>).
\<close>

definition table_repository :: "uuid \<Rightarrow> MentorRepository" where
  "table_repository new_id =
     \<lparr>repo_get_all_mentors = (\<lambda>st. (Inr (mentor_table st), st)),
      repo_create_mentor = (\<lambda>tg_id name info st.
         (Inr new_id,
          st\<lparr>mentor_table := mentor_table st @
               [\<lparr>m_id = new_id, m_telegram_id = tg_id, m_name = name, m_info = info\<rparr>]\<rparr>)),
      repo_get_mentor_by_id = (\<lambda>mentor_id st.
         (Inr (find (\<lambda>m. m_id m = mentor_id) (mentor_table st)), st)),
      repo_get_mentor_by_tg_id = (\<lambda>tg_id st.
         (Inr (find (\<lambda>m. m_telegram_id m = tg_id) (mentor_table st)), st))\<rparr>"

section \<open>What the two routers share\<close>

text \<open>Sequencing of calls, \<^verbatim>\<open>return\<close>, \<^verbatim>\<open>raise\<close> and \<^verbatim>\<open>try: ... except ...\<close>.\<close>

definition return :: "'a \<Rightarrow> 'a io" where
  "return v st = (Inr v, st)"

definition raise :: "exn \<Rightarrow> 'a io" where
  "raise e st = (Inl e, st)"

definition and_then :: "'a io \<Rightarrow> ('a \<Rightarrow> 'b io) \<Rightarrow> 'b io" where
  "and_then m f st = (case m st of (Inl e, st1) \<Rightarrow> (Inl e, st1) | (Inr v, st1) \<Rightarrow> f v st1)"

definition try_except :: "'a io \<Rightarrow> (exn \<Rightarrow> 'a io) \<Rightarrow> 'a io" where
  "try_except block handler st =
     (case block st of (Inl e, st1) \<Rightarrow> handler e st1 | (Inr v, st1) \<Rightarrow> (Inr v, st1))"

definition lift :: "exn + 'a \<Rightarrow> 'a io" where
  "lift r st = (r, st)"

definition log_line :: "level \<Rightarrow> string \<Rightarrow> arg list \<Rightarrow> unit io" where
  "log_line lv text args st = (Inr (), logger lv text args st)"

fun traverse :: "('a \<Rightarrow> exn + 'b) \<Rightarrow> 'a list \<Rightarrow> exn + 'b list" where
  "traverse f [] = Inr []"
| "traverse f (x # xs) =
     (case f x of
        Inl e \<Rightarrow> Inl e
      | Inr y \<Rightarrow> (case traverse f xs of Inl e \<Rightarrow> Inl e | Inr ys \<Rightarrow> Inr (y # ys)))"

text \<open>
  The response models. Building one validates the values given: a \<^verbatim>\<open>None\<close> where the
  field's type is not \<^verbatim>\<open>Optional\<close> raises pydantic's \<^verbatim>\<open>ValidationError\<close>, which
  is a subclass of \<^verbatim>\<open>ValueError\<close> (its text is shortened here to the model's name).
\<close>

definition ValidationError :: "string \<Rightarrow> exn" where
  "ValidationError model = ValueError (''validation error for '' @ model)"

datatype MentorTimeDto =
  MentorTimeDto (dto_id: uuid) (dto_day: int) (dto_time_start: time) (dto_time_end: time)
    (dto_mentor_id: uuid)

datatype RequestDto =
  RequestDto (rd_id: uuid) (rd_call_type: bool) (rd_time_sended: datetime)
    (rd_mentor_id: uuid) (rd_guest_id: uuid) (rd_description: string)
    (rd_call_time: "datetime option") (rd_response: int)

text \<open>
  The body of a response: one constructor per response model of the two routers,
  \<open>Dict\<close> for the literal \<^verbatim>\<open>{"status": "ok"}\<close>, \<open>Detail\<close> for the error envelope
  \<^verbatim>\<open>{"detail": ...}\<close> FastAPI writes for an \<^verbatim>\<open>HTTPException\<close>.
\<close>

datatype body =
    MentorTimeGetAllResponse "MentorTimeDto list"
  | CreateMentorTimeRequestGetResponse uuid
  | MentorTimeGetAllByMentorIdResponse "MentorTimeDto list"
  | GetPossibleMentorTimeResponse "time list"
  | CountMentorTimeGetRequest int
  | CheckMentorTimeGetRequest bool
  | RequestGetAllResponse "RequestDto list"
  | SendMessageRequestGetResponse uuid
  | SendCallRequestGetResponse uuid
  | GetRequestByIdGetResponse bool datetime uuid uuid string "datetime option" int
  | Dict "(string \<times> string) list"
  | Detail string
  | InternalServerError

definition new_MentorTimeDto ::
  "uuid \<Rightarrow> int option \<Rightarrow> time option \<Rightarrow> time option \<Rightarrow> uuid option \<Rightarrow> exn + MentorTimeDto" where
  "new_MentorTimeDto i day time_start time_end mentor_id =
     (case (day, time_start, time_end, mentor_id) of
        (Some d, Some s, Some e, Some m) \<Rightarrow> Inr (MentorTimeDto i d s e m)
      | _ \<Rightarrow> Inl (ValidationError ''MentorTimeDto''))"

definition new_RequestDto ::
  "uuid \<Rightarrow> bool option \<Rightarrow> datetime option \<Rightarrow> uuid option \<Rightarrow> uuid option \<Rightarrow> string option
     \<Rightarrow> datetime option \<Rightarrow> int option \<Rightarrow> exn + RequestDto" where
  "new_RequestDto i call_type time_sended mentor_id guest_id description call_time response =
     (case (call_type, time_sended, mentor_id, guest_id, description, response) of
        (Some c, Some t, Some m, Some g, Some d, Some r) \<Rightarrow>
          Inr (RequestDto i c t m g d call_time r)
      | _ \<Rightarrow> Inl (ValidationError ''RequestDto''))"

definition new_GetRequestByIdGetResponse ::
  "bool option \<Rightarrow> datetime option \<Rightarrow> uuid option \<Rightarrow> uuid option \<Rightarrow> string option
     \<Rightarrow> datetime option \<Rightarrow> int option \<Rightarrow> exn + body" where
  "new_GetRequestByIdGetResponse call_type time_sended mentor_id guest_id description
       call_time response =
     (case (call_type, time_sended, mentor_id, guest_id, description, response) of
        (Some c, Some t, Some m, Some g, Some d, Some r) \<Rightarrow>
          Inr (GetRequestByIdGetResponse c t m g d call_time r)
      | _ \<Rightarrow> Inl (ValidationError ''GetRequestByIdGetResponse''))"

text \<open>
  \<^verbatim>\<open>req.dict(exclude_unset=True)\<close>: the fields named in \<open>fields_set\<close>, each with the
  value the model holds for it.
\<close>

definition mentor_time_dict_exclude_unset :: "MentorTimeUpdateRequest \<Rightarrow> MentorTimePatch" where
  "mentor_time_dict_exclude_unset req =
     MentorTimePatch
       (if ''day'' \<in> mtu_fields_set req then Some (mtu_day req) else None)
       (if ''time_start'' \<in> mtu_fields_set req then Some (mtu_time_start req) else None)
       (if ''time_end'' \<in> mtu_fields_set req then Some (mtu_time_end req) else None)
       (if ''mentor_id'' \<in> mtu_fields_set req then Some (mtu_mentor_id req) else None)"

definition request_dict_exclude_unset :: "RequestUpdateRequest \<Rightarrow> RequestPatch" where
  "request_dict_exclude_unset req =
     RequestPatch
       (if ''call_type'' \<in> ru_fields_set req then Some (ru_call_type req) else None)
       (if ''mentor_id'' \<in> ru_fields_set req then Some (ru_mentor_id req) else None)
       (if ''guest_id'' \<in> ru_fields_set req then Some (ru_guest_id req) else None)
       (if ''description'' \<in> ru_fields_set req then Some (ru_description req) else None)
       (if ''call_time'' \<in> ru_fields_set req then Some (ru_call_time req) else None)
       (if ''response'' \<in> ru_fields_set req then Some (ru_response req) else None)"

text \<open>
  \<^verbatim>\<open>MentorTimeService\<close> and \<^verbatim>\<open>StudentService\<close> are not part of the sources; the
  handlers receive them as parameters, one field per method the routers call.
\<close>

record MentorTimeService =
  mts_get_all_mentor_time :: "MentorTime list io"
  mts_create_mentor_time :: "int \<Rightarrow> time \<Rightarrow> time \<Rightarrow> uuid \<Rightarrow> uuid io"
  mts_get_all_mentor_time_by_mentor_id :: "uuid \<Rightarrow> MentorTime list io"
  mts_get_call_times :: "int \<Rightarrow> uuid \<Rightarrow> time list io"
  mts_count_requests_for_time :: "uuid \<Rightarrow> datetime \<Rightarrow> int io"
  mts_check_time_reservation :: "uuid \<Rightarrow> datetime \<Rightarrow> bool io"
  mts_update_mentor_time :: "uuid \<Rightarrow> MentorTimePatch \<Rightarrow> unit io"
  mts_delete_mentor_time :: "uuid \<Rightarrow> unit io"

record StudentService =
  ss_get_all_requests :: "Request list io"
  ss_send_message_request :: "uuid \<Rightarrow> uuid \<Rightarrow> string \<Rightarrow> uuid io"
  ss_send_call_request :: "uuid \<Rightarrow> uuid \<Rightarrow> string \<Rightarrow> datetime \<Rightarrow> uuid io"
  ss_get_request_by_id :: "uuid \<Rightarrow> Request option io"
  ss_update_request :: "uuid \<Rightarrow> RequestPatch \<Rightarrow> unit io"
  ss_delete_request :: "uuid \<Rightarrow> unit io"

section \<open>presentations/routers/mentor\_time\_router.py\<close>

text \<open>
  Each handler is its \<^verbatim>\<open>try\<close> block followed by its \<^verbatim>\<open>except\<close> clauses in the
  source's order. \<^verbatim>\<open>except ValueError\<close> catches \<open>ValueError m\<close>,
  \<^verbatim>\<open>except HTTPException\<close> catches \<open>HTTPException c d\<close>, and
  \<^verbatim>\<open>except Exception\<close> catches whatever reaches it.
\<close>

definition mentor_time_get_all :: "MentorTimeService \<Rightarrow> uuid \<Rightarrow> body io" where
  "mentor_time_get_all mentor_time_service user_id =
     try_except
       (and_then (log_line INFO ''User {user_id} retrieving all mentor times''
                   [AUuid user_id]) (\<lambda>_.
        and_then (mts_get_all_mentor_time mentor_time_service) (\<lambda>mentor_times.
        and_then (lift (traverse (\<lambda>mentor_time.
                    new_MentorTimeDto (mt_id mentor_time) (mt_day mentor_time)
                      (mt_time_start mentor_time) (mt_time_end mentor_time)
                      (mt_mentor_id mentor_time)) mentor_times)) (\<lambda>dtos.
        return (MentorTimeGetAllResponse dtos)))))
       (\<lambda>e. case e of
          HTTPException c d \<Rightarrow> raise e
        | _ \<Rightarrow>
          and_then (log_line ERROR ''Error retrieving all mentor times: {e}'' [AStr (str e)])
            (\<lambda>_. raise (HTTPException 400 (str e))))"

definition create_mentor_time ::
  "MentorTimeService \<Rightarrow> CreateMentorTimeRequestPostRequest \<Rightarrow> uuid \<Rightarrow> body io" where
  "create_mentor_time mentor_time_service mentor_time_request user_id =
     try_except
       (and_then (log_line INFO
                   ''User {user_id} creating new mentor time for mentor {mentor_time_request.mentor_id}''
                   [AUuid user_id, AUuid (cmt_mentor_id mentor_time_request)]) (\<lambda>_.
        and_then (mts_create_mentor_time mentor_time_service
                    (cmt_day mentor_time_request) (cmt_time_start mentor_time_request)
                    (cmt_time_end mentor_time_request) (cmt_mentor_id mentor_time_request))
          (\<lambda>mentor_time_id.
        return (CreateMentorTimeRequestGetResponse mentor_time_id))))
       (\<lambda>e.
          and_then (log_line ERROR ''Error creating mentor time: {e}'' [AStr (str e)])
            (\<lambda>_. raise (HTTPException 400 (str e))))"

definition get_all_by_mentor_id :: "MentorTimeService \<Rightarrow> uuid \<Rightarrow> uuid \<Rightarrow> body io" where
  "get_all_by_mentor_id mentor_time_service mentor_id user_id =
     try_except
       (and_then (log_line INFO
                   ''User {user_id} retrieving all mentor times for mentor {mentor_id}''
                   [AUuid user_id, AUuid mentor_id]) (\<lambda>_.
        and_then (mts_get_all_mentor_time_by_mentor_id mentor_time_service mentor_id)
          (\<lambda>mentor_times.
        and_then (lift (traverse (\<lambda>mentor_time.
                    new_MentorTimeDto (mt_id mentor_time) (mt_day mentor_time)
                      (mt_time_start mentor_time) (mt_time_end mentor_time)
                      (mt_mentor_id mentor_time)) mentor_times)) (\<lambda>dtos.
        return (MentorTimeGetAllByMentorIdResponse dtos)))))
       (\<lambda>e. case e of
          HTTPException c d \<Rightarrow> raise e
        | _ \<Rightarrow>
          and_then (log_line ERROR ''Error retrieving mentor times by mentor ID: {e}''
                     [AStr (str e)])
            (\<lambda>_. raise (HTTPException 400 (str e))))"

definition get_possible_time :: "MentorTimeService \<Rightarrow> uuid \<Rightarrow> int \<Rightarrow> uuid \<Rightarrow> body io" where
  "get_possible_time mentor_time_service mentor_id day user_id =
     try_except
       (and_then (log_line INFO
                   ''User {user_id} retrieving possible call times for mentor {mentor_id} on day {day}''
                   [AUuid user_id, AUuid mentor_id, AInt day]) (\<lambda>_.
        and_then (mts_get_call_times mentor_time_service day mentor_id) (\<lambda>mentor_times.
        return (GetPossibleMentorTimeResponse mentor_times))))
       (\<lambda>e. case e of
          HTTPException c d \<Rightarrow> raise e
        | _ \<Rightarrow>
          and_then (log_line ERROR ''Error retrieving possible call times: {e}''
                     [AStr (str e)])
            (\<lambda>_. raise (HTTPException 400 (str e))))"

definition count_requests :: "MentorTimeService \<Rightarrow> uuid \<Rightarrow> datetime \<Rightarrow> uuid \<Rightarrow> body io" where
  "count_requests mentor_time_service mentor_id request_time user_id =
     try_except
       (and_then (log_line INFO
                   ''User {user_id} counting requests for mentor {mentor_id} at time {request_time}''
                   [AUuid user_id, AUuid mentor_id, ADatetime request_time]) (\<lambda>_.
        and_then (mts_count_requests_for_time mentor_time_service mentor_id request_time)
          (\<lambda>mentor_cnt.
        return (CountMentorTimeGetRequest mentor_cnt))))
       (\<lambda>e. case e of
          HTTPException c d \<Rightarrow> raise e
        | _ \<Rightarrow>
          and_then (log_line ERROR ''Error counting requests for time: {e}'' [AStr (str e)])
            (\<lambda>_. raise (HTTPException 400 (str e))))"

definition check_request :: "MentorTimeService \<Rightarrow> uuid \<Rightarrow> datetime \<Rightarrow> uuid \<Rightarrow> body io" where
  "check_request mentor_time_service mentor_id request_time user_id =
     try_except
       (and_then (log_line INFO
                   ''User {user_id} checking time reservation for mentor {mentor_id} at time {request_time}''
                   [AUuid user_id, AUuid mentor_id, ADatetime request_time]) (\<lambda>_.
        and_then (mts_check_time_reservation mentor_time_service mentor_id request_time)
          (\<lambda>mentor_status.
        return (CheckMentorTimeGetRequest mentor_status))))
       (\<lambda>e. case e of
          HTTPException c d \<Rightarrow> raise e
        | _ \<Rightarrow>
          and_then (log_line ERROR ''Error checking time reservation: {e}'' [AStr (str e)])
            (\<lambda>_. raise (HTTPException 400 (str e))))"

definition update_mentor_time ::
  "MentorTimeService \<Rightarrow> uuid \<Rightarrow> MentorTimeUpdateRequest \<Rightarrow> uuid \<Rightarrow> body io" where
  "update_mentor_time mentor_time_service slot_id req user_id =
     try_except
       (and_then (log_line INFO
                   ''User {user_id} updating mentor_time {slot_id} with {req.dict(exclude_unset=True)}''
                   [AUuid user_id, AUuid slot_id,
                    AMentorTimePatch (mentor_time_dict_exclude_unset req)]) (\<lambda>_.
        and_then (mts_update_mentor_time mentor_time_service slot_id
                    (mentor_time_dict_exclude_unset req)) (\<lambda>_.
        return (Dict [(''status'', ''ok'')]))))
       (\<lambda>e. case e of
          ValueError m \<Rightarrow>
          and_then (log_line WARNING ''MentorTime {slot_id} not found for update''
                     [AUuid slot_id])
            (\<lambda>_. raise (HTTPException 404 (str e)))
        | _ \<Rightarrow>
          and_then (log_line ERROR ''Error updating mentor_time: {e}'' [AStr (str e)])
            (\<lambda>_. raise (HTTPException 400 (str e))))"

definition delete_mentor_time :: "MentorTimeService \<Rightarrow> uuid \<Rightarrow> uuid \<Rightarrow> body io" where
  "delete_mentor_time mentor_time_service slot_id user_id =
     try_except
       (and_then (log_line INFO ''User {user_id} deleting mentor_time {slot_id}''
                   [AUuid user_id, AUuid slot_id]) (\<lambda>_.
        and_then (mts_delete_mentor_time mentor_time_service slot_id) (\<lambda>_.
        return (Dict [(''status'', ''ok'')]))))
       (\<lambda>e. case e of
          ValueError m \<Rightarrow>
          and_then (log_line WARNING ''MentorTime {slot_id} not found for delete''
                     [AUuid slot_id])
            (\<lambda>_. raise (HTTPException 404 (str e)))
        | _ \<Rightarrow>
          and_then (log_line ERROR ''Error deleting mentor_time: {e}'' [AStr (str e)])
            (\<lambda>_. raise (HTTPException 400 (str e))))"

section \<open>presentations/routers/student\_router.py\<close>

text \<open>
  The detail of the 404 of \<^verbatim>\<open>get_by_id\<close> is Russian ("Zapros ne naiden", request not
  found), given as its UTF-8 bytes.
\<close>

definition msg_request_not_found :: string where
  "msg_request_not_found = map char_of
     [208, 151, 208, 176, 208, 191, 209, 128, 208, 190, 209, 129, 32, 208, 189, 208, 181,
      32, 208, 189, 208, 176, 208, 185, 208, 180, 208, 181, 208, 189 :: nat]"

definition student_get_all :: "StudentService \<Rightarrow> uuid \<Rightarrow> body io" where
  "student_get_all student_service user_id =
     try_except
       (and_then (log_line INFO ''User {user_id} retrieving all requests'' [AUuid user_id])
          (\<lambda>_.
        and_then (ss_get_all_requests student_service) (\<lambda>requests.
        and_then (lift (traverse (\<lambda>request.
                    new_RequestDto (rq_id request) (rq_call_type request)
                      (rq_time_sended request) (rq_mentor_id request) (rq_guest_id request)
                      (rq_description request) (rq_call_time request) (rq_response request))
                    requests)) (\<lambda>dtos.
        return (RequestGetAllResponse dtos)))))
       (\<lambda>e. case e of
          HTTPException c d \<Rightarrow> raise e
        | _ \<Rightarrow>
          and_then (log_line ERROR ''Error retrieving all requests: {e}'' [AStr (str e)])
            (\<lambda>_. raise (HTTPException 400 (str e))))"

definition create_message ::
  "StudentService \<Rightarrow> SendMessageRequestPostRequest \<Rightarrow> uuid \<Rightarrow> body io" where
  "create_message student_service request_request user_id =
     try_except
       (and_then (log_line INFO
                   ''Creating message request for user {user_id} to mentor {request_request.mentor_id}''
                   [AUuid user_id, AUuid (smr_mentor_id request_request)]) (\<lambda>_.
        and_then (ss_send_message_request student_service
                    (smr_mentor_id request_request) user_id
                    (smr_description request_request)) (\<lambda>request_id.
        return (SendMessageRequestGetResponse request_id))))
       (\<lambda>e.
          and_then (log_line ERROR ''Error creating message request: {e}'' [AStr (str e)])
            (\<lambda>_. raise (HTTPException 400 (str e))))"

definition create_call ::
  "StudentService \<Rightarrow> SendCallRequestPostRequest \<Rightarrow> uuid \<Rightarrow> body io" where
  "create_call student_service request_request user_id =
     try_except
       (and_then (log_line INFO
                   ''Creating call request for user {user_id} to mentor {request_request.mentor_id}''
                   [AUuid user_id, AUuid (scr_mentor_id request_request)]) (\<lambda>_.
        and_then (ss_send_call_request student_service
                    (scr_mentor_id request_request) user_id
                    (scr_description request_request) (scr_call_time request_request))
          (\<lambda>request_id.
        return (SendCallRequestGetResponse request_id))))
       (\<lambda>e.
          and_then (log_line ERROR ''Error creating call request: {e}'' [AStr (str e)])
            (\<lambda>_. raise (HTTPException 400 (str e))))"

definition get_by_id :: "StudentService \<Rightarrow> uuid \<Rightarrow> uuid \<Rightarrow> body io" where
  "get_by_id student_service request_id user_id =
     try_except
       (and_then (log_line INFO ''Getting request {request_id} for user {user_id}''
                   [AUuid request_id, AUuid user_id]) (\<lambda>_.
        and_then (ss_get_request_by_id student_service request_id) (\<lambda>request.
        case request of
          None \<Rightarrow>
            and_then (log_line WARNING ''Request {request_id} not found'' [AUuid request_id])
              (\<lambda>_. raise (HTTPException 404 msg_request_not_found))
        | Some request \<Rightarrow>
            lift (new_GetRequestByIdGetResponse (rq_call_type request)
                    (rq_time_sended request) (rq_mentor_id request) (rq_guest_id request)
                    (rq_description request) (rq_call_time request) (rq_response request)))))
       (\<lambda>e. case e of
          HTTPException c d \<Rightarrow> raise e
        | _ \<Rightarrow>
          and_then (log_line ERROR ''Error getting request by ID: {e}'' [AStr (str e)])
            (\<lambda>_. raise (HTTPException 400 (str e))))"

definition update_request ::
  "StudentService \<Rightarrow> uuid \<Rightarrow> RequestUpdateRequest \<Rightarrow> uuid \<Rightarrow> body io" where
  "update_request student_service request_id req user_id =
     try_except
       (and_then (log_line INFO
                   ''User {user_id} updating request {request_id} with {req.dict(exclude_unset=True)}''
                   [AUuid user_id, AUuid request_id,
                    ARequestPatch (request_dict_exclude_unset req)]) (\<lambda>_.
        and_then (ss_update_request student_service request_id
                    (request_dict_exclude_unset req)) (\<lambda>_.
        return (Dict [(''status'', ''ok'')]))))
       (\<lambda>e. case e of
          ValueError m \<Rightarrow>
          and_then (log_line WARNING ''Request {request_id} not found for update''
                     [AUuid request_id])
            (\<lambda>_. raise (HTTPException 404 (str e)))
        | _ \<Rightarrow>
          and_then (log_line ERROR ''Error updating request: {e}'' [AStr (str e)])
            (\<lambda>_. raise (HTTPException 400 (str e))))"

definition delete_request :: "StudentService \<Rightarrow> uuid \<Rightarrow> uuid \<Rightarrow> body io" where
  "delete_request student_service request_id user_id =
     try_except
       (and_then (log_line INFO ''User {user_id} deleting request {request_id}''
                   [AUuid user_id, AUuid request_id]) (\<lambda>_.
        and_then (ss_delete_request student_service request_id) (\<lambda>_.
        return (Dict [(''status'', ''ok'')]))))
       (\<lambda>e. case e of
          ValueError m \<Rightarrow>
          and_then (log_line WARNING ''Request {request_id} not found for delete''
                     [AUuid request_id])
            (\<lambda>_. raise (HTTPException 404 (str e)))
        | _ \<Rightarrow>
          and_then (log_line ERROR ''Error deleting request: {e}'' [AStr (str e)])
            (\<lambda>_. raise (HTTPException 400 (str e))))"

section \<open>The routes\<close>

text \<open>
  What FastAPI does around a handler. Every handler declares
  \<^verbatim>\<open>user_id: UUID = Depends(extract_user_id)\<close>: the dependency is called first, on the
  request's \<^verbatim>\<open>Authorization\<close> header, and the handler is called only with the value
  it returns. \<^verbatim>\<open>utils/jwt_utils.py\<close> is not part of the sources, so
  \<open>extract_user_id\<close> is a parameter. An \<^verbatim>\<open>HTTPException\<close> becomes the response with
  its status code and the envelope \<^verbatim>\<open>{"detail": detail}\<close>, any other exception the
  response 500; a returned body is sent with the route's \<^verbatim>\<open>status_code\<close> (200 when
  the decorator names none).
\<close>

datatype response = Response (status: nat) (content: body)

fun exception_handler :: "exn \<Rightarrow> response" where
  "exception_handler (HTTPException c d) = Response c (Detail d)"
| "exception_handler e = Response 500 InternalServerError"

definition route ::
  "nat \<Rightarrow> (string option \<Rightarrow> uuid io) \<Rightarrow> (uuid \<Rightarrow> body io) \<Rightarrow> string option
     \<Rightarrow> state \<Rightarrow> response \<times> state" where
  "route status_code extract_user_id handler authorization st =
     (case extract_user_id authorization st of
        (Inl e, st1) \<Rightarrow> (exception_handler e, st1)
      | (Inr user_id, st1) \<Rightarrow>
          (case handler user_id st1 of
             (Inl e, st2) \<Rightarrow> (exception_handler e, st2)
           | (Inr b, st2) \<Rightarrow> (Response status_code b, st2)))"

text \<open>The fourteen routes: method, path and body, with the path parameters parsed.\<close>

datatype endpoint =
    GET_mentor_time
  | POST_mentor_time CreateMentorTimeRequestPostRequest
  | GET_mentor_time_mentor uuid
  | GET_mentor_time_call_times uuid int
  | GET_mentor_time_count uuid datetime
  | GET_mentor_time_check uuid datetime
  | PATCH_mentor_time uuid MentorTimeUpdateRequest
  | DELETE_mentor_time uuid
  | GET_student
  | POST_student_message SendMessageRequestPostRequest
  | POST_student_call SendCallRequestPostRequest
  | GET_student_id uuid
  | PATCH_student uuid RequestUpdateRequest
  | DELETE_student uuid

fun handler_of :: "MentorTimeService \<Rightarrow> StudentService \<Rightarrow> endpoint \<Rightarrow> uuid \<Rightarrow> body io" where
  "handler_of mts ss GET_mentor_time = mentor_time_get_all mts"
| "handler_of mts ss (POST_mentor_time req) = create_mentor_time mts req"
| "handler_of mts ss (GET_mentor_time_mentor mentor_id) = get_all_by_mentor_id mts mentor_id"
| "handler_of mts ss (GET_mentor_time_call_times mentor_id day) =
     get_possible_time mts mentor_id day"
| "handler_of mts ss (GET_mentor_time_count mentor_id request_time) =
     count_requests mts mentor_id request_time"
| "handler_of mts ss (GET_mentor_time_check mentor_id request_time) =
     check_request mts mentor_id request_time"
| "handler_of mts ss (PATCH_mentor_time slot_id req) = update_mentor_time mts slot_id req"
| "handler_of mts ss (DELETE_mentor_time slot_id) = delete_mentor_time mts slot_id"
| "handler_of mts ss GET_student = student_get_all ss"
| "handler_of mts ss (POST_student_message req) = create_message ss req"
| "handler_of mts ss (POST_student_call req) = create_call ss req"
| "handler_of mts ss (GET_student_id request_id) = get_by_id ss request_id"
| "handler_of mts ss (PATCH_student request_id req) = update_request ss request_id req"
| "handler_of mts ss (DELETE_student request_id) = delete_request ss request_id"

fun status_code_of :: "endpoint \<Rightarrow> nat" where
  "status_code_of (POST_mentor_time req) = 201"
| "status_code_of (POST_student_message req) = 201"
| "status_code_of (POST_student_call req) = 201"
| "status_code_of ep = 200"

definition serve ::
  "(string option \<Rightarrow> uuid io) \<Rightarrow> MentorTimeService \<Rightarrow> StudentService \<Rightarrow> string option
     \<Rightarrow> endpoint \<Rightarrow> state \<Rightarrow> response \<times> state" where
  "serve extract_user_id mts ss authorization ep =
     route (status_code_of ep) extract_user_id (handler_of mts ss ep) authorization"

section \<open>The two services the routers call, from the specification\<close>

text \<open>
  What the specification leaves open is an input of the model: the id and the time of
  a creation, the default \<^verbatim>\<open>response\<close>, the messages of the two not-found errors, the
  text logged for an empty result and the whole of \<^verbatim>\<open>get_call_times\<close>.
\<close>

record unspecified =
  new_id :: uuid
  now :: datetime
  default_response :: int
  slot_not_found :: "uuid \<Rightarrow> string"
  request_not_found :: "uuid \<Rightarrow> string"
  empty_text :: string
  call_times :: "int \<Rightarrow> uuid \<Rightarrow> time list io"

text \<open>
  Modelled from the spec: the partial update of the \<^verbatim>\<open>MentorTime\<close> repository (sections
  4.4, 4.7), missing from the sources: it applies only the fields present in the patch
  and leaves all other fields unchanged.
\<close>

definition apply_mentor_time_patch :: "MentorTimePatch \<Rightarrow> MentorTime \<Rightarrow> MentorTime" where
  "apply_mentor_time_patch patch row =
     row\<lparr>mt_day := (case p_day patch of None \<Rightarrow> mt_day row | Some v \<Rightarrow> v),
         mt_time_start := (case p_time_start patch of None \<Rightarrow> mt_time_start row | Some v \<Rightarrow> v),
         mt_time_end := (case p_time_end patch of None \<Rightarrow> mt_time_end row | Some v \<Rightarrow> v),
         mt_mentor_id := (case p_mentor_id patch of None \<Rightarrow> mt_mentor_id row | Some v \<Rightarrow> v)\<rparr>"

text \<open>
  Modelled from the spec: the partial update of the \<^verbatim>\<open>Request\<close> repository (sections
  4.5, 4.8), missing from the sources, as above.
\<close>

definition apply_request_patch :: "RequestPatch \<Rightarrow> Request \<Rightarrow> Request" where
  "apply_request_patch patch row =
     row\<lparr>rq_call_type := (case q_call_type patch of None \<Rightarrow> rq_call_type row | Some v \<Rightarrow> v),
         rq_mentor_id := (case q_mentor_id patch of None \<Rightarrow> rq_mentor_id row | Some v \<Rightarrow> v),
         rq_guest_id := (case q_guest_id patch of None \<Rightarrow> rq_guest_id row | Some v \<Rightarrow> v),
         rq_description :=
           (case q_description patch of None \<Rightarrow> rq_description row | Some v \<Rightarrow> v),
         rq_call_time := (case q_call_time patch of None \<Rightarrow> rq_call_time row | Some v \<Rightarrow> v),
         rq_response := (case q_response patch of None \<Rightarrow> rq_response row | Some v \<Rightarrow> v)\<rparr>"

text \<open>
  Modelled from the spec: \<^verbatim>\<open>MentorTimeService.update_mentor_time\<close> and
  \<^verbatim>\<open>delete_mentor_time\<close> (section 4.7), missing from the sources: they fail with a
  not-found condition if the slot id does not exist, raised as the generic
  invalid-argument error (section 9), and otherwise patch, respectively remove, the slot.
\<close>

definition spec_update_mentor_time :: "unspecified \<Rightarrow> uuid \<Rightarrow> MentorTimePatch \<Rightarrow> unit io" where
  "spec_update_mentor_time u slot_id patch st =
     (if find (\<lambda>row. mt_id row = slot_id) (mentor_time_table st) = None
      then (Inl (ValueError (slot_not_found u slot_id)), st)
      else (Inr (),
            st\<lparr>mentor_time_table :=
                 map (\<lambda>row. if mt_id row = slot_id then apply_mentor_time_patch patch row
                            else row) (mentor_time_table st)\<rparr>))"

definition spec_delete_mentor_time :: "unspecified \<Rightarrow> uuid \<Rightarrow> unit io" where
  "spec_delete_mentor_time u slot_id st =
     (if find (\<lambda>row. mt_id row = slot_id) (mentor_time_table st) = None
      then (Inl (ValueError (slot_not_found u slot_id)), st)
      else (Inr (),
            st\<lparr>mentor_time_table :=
                 filter (\<lambda>row. mt_id row \<noteq> slot_id) (mentor_time_table st)\<rparr>))"

text \<open>
  Modelled from the spec: \<^verbatim>\<open>MentorTimeService.count_requests_for_time\<close> (section 4.7),
  missing from the sources: the count of Request records for that mentor whose
  \<^verbatim>\<open>call_time\<close> equals the given timestamp.
\<close>

definition spec_count_requests_for_time :: "uuid \<Rightarrow> datetime \<Rightarrow> int io" where
  "spec_count_requests_for_time mentor_id request_time st =
     (Inr (int (length (filter
              (\<lambda>row. rq_mentor_id row = Some mentor_id \<and> rq_call_time row = Some request_time)
              (request_table st)))), st)"

text \<open>
  Modelled from the spec: \<^verbatim>\<open>MentorTimeService.check_time_reservation\<close> (section 4.7),
  missing from the sources: true iff at least one Request exists for that mentor with
  \<^verbatim>\<open>call_time\<close> equal to the given timestamp.
\<close>

definition spec_check_time_reservation :: "uuid \<Rightarrow> datetime \<Rightarrow> bool io" where
  "spec_check_time_reservation mentor_id request_time st =
     (Inr (\<exists>row \<in> set (request_table st).
             rq_mentor_id row = Some mentor_id \<and> rq_call_time row = Some request_time), st)"

text \<open>
  Modelled from the spec: \<^verbatim>\<open>MentorTimeService\<close> (section 4.7), missing from the
  sources. \<^verbatim>\<open>get_all_mentor_time\<close> returns all slots and logs an empty result;
  \<^verbatim>\<open>create_mentor_time\<close> validates nothing, creates the slot and returns its id;
  \<^verbatim>\<open>get_all_mentor_time_by_mentor_id\<close> returns the slots owned by the mentor.
\<close>

definition spec_mentor_time_service :: "unspecified \<Rightarrow> MentorTimeService" where
  "spec_mentor_time_service u =
     \<lparr>mts_get_all_mentor_time = (\<lambda>st.
         (Inr (mentor_time_table st),
          if mentor_time_table st = [] then logger WARNING (empty_text u) [] st else st)),
      mts_create_mentor_time = (\<lambda>day time_start time_end mentor_id st.
         (Inr (new_id u),
          st\<lparr>mentor_time_table := mentor_time_table st @
               [\<lparr>mt_id = new_id u, mt_day = Some day, mt_time_start = Some time_start,
                 mt_time_end = Some time_end, mt_mentor_id = Some mentor_id\<rparr>]\<rparr>)),
      mts_get_all_mentor_time_by_mentor_id = (\<lambda>mentor_id st.
         (Inr (filter (\<lambda>row. mt_mentor_id row = Some mentor_id) (mentor_time_table st)), st)),
      mts_get_call_times = call_times u,
      mts_count_requests_for_time = spec_count_requests_for_time,
      mts_check_time_reservation = spec_check_time_reservation,
      mts_update_mentor_time = spec_update_mentor_time u,
      mts_delete_mentor_time = spec_delete_mentor_time u\<rparr>"

text \<open>
  Modelled from the spec: \<^verbatim>\<open>StudentService.send_message_request\<close> and
  \<^verbatim>\<open>send_call_request\<close> (section 4.8), missing from the sources. The first creates a
  Request with \<^verbatim>\<open>call_type=false\<close>, \<^verbatim>\<open>time_sended\<close> = now, \<^verbatim>\<open>call_time\<close> absent and
  the default \<^verbatim>\<open>response\<close>; the second one with \<^verbatim>\<open>call_type=true\<close> and the supplied
  \<^verbatim>\<open>call_time\<close>, checking nothing. Both return the new id.
\<close>

definition spec_send_message_request :: "unspecified \<Rightarrow> uuid \<Rightarrow> uuid \<Rightarrow> string \<Rightarrow> uuid io" where
  "spec_send_message_request u mentor_id guest_id description st =
     (Inr (new_id u),
      st\<lparr>request_table := request_table st @
           [\<lparr>rq_id = new_id u, rq_call_type = Some False, rq_time_sended = Some (now u),
             rq_mentor_id = Some mentor_id, rq_guest_id = Some guest_id,
             rq_description = Some description, rq_call_time = None,
             rq_response = Some (default_response u)\<rparr>]\<rparr>)"

definition spec_send_call_request ::
  "unspecified \<Rightarrow> uuid \<Rightarrow> uuid \<Rightarrow> string \<Rightarrow> datetime \<Rightarrow> uuid io" where
  "spec_send_call_request u mentor_id guest_id description call_time st =
     (Inr (new_id u),
      st\<lparr>request_table := request_table st @
           [\<lparr>rq_id = new_id u, rq_call_type = Some True, rq_time_sended = Some (now u),
             rq_mentor_id = Some mentor_id, rq_guest_id = Some guest_id,
             rq_description = Some description, rq_call_time = Some call_time,
             rq_response = Some (default_response u)\<rparr>]\<rparr>)"

text \<open>
  Modelled from the spec: \<^verbatim>\<open>StudentService.update_request\<close> and \<^verbatim>\<open>delete_request\<close>
  (section 4.8), missing from the sources: they fail with a not-found condition if the
  id does not exist, and otherwise patch, respectively remove, the Request.
\<close>

definition spec_update_request :: "unspecified \<Rightarrow> uuid \<Rightarrow> RequestPatch \<Rightarrow> unit io" where
  "spec_update_request u request_id patch st =
     (if find (\<lambda>row. rq_id row = request_id) (request_table st) = None
      then (Inl (ValueError (request_not_found u request_id)), st)
      else (Inr (),
            st\<lparr>request_table :=
                 map (\<lambda>row. if rq_id row = request_id then apply_request_patch patch row
                            else row) (request_table st)\<rparr>))"

definition spec_delete_request :: "unspecified \<Rightarrow> uuid \<Rightarrow> unit io" where
  "spec_delete_request u request_id st =
     (if find (\<lambda>row. rq_id row = request_id) (request_table st) = None
      then (Inl (ValueError (request_not_found u request_id)), st)
      else (Inr (),
            st\<lparr>request_table :=
                 filter (\<lambda>row. rq_id row \<noteq> request_id) (request_table st)\<rparr>))"

text \<open>
  Modelled from the spec: \<^verbatim>\<open>StudentService\<close> (section 4.8), missing from the sources.
  \<^verbatim>\<open>get_all_requests\<close> returns all Request records, \<^verbatim>\<open>get_request_by_id\<close> the Request
  or absent (not an error) if missing.
\<close>

definition spec_student_service :: "unspecified \<Rightarrow> StudentService" where
  "spec_student_service u =
     \<lparr>ss_get_all_requests = (\<lambda>st. (Inr (request_table st), st)),
      ss_send_message_request = spec_send_message_request u,
      ss_send_call_request = spec_send_call_request u,
      ss_get_request_by_id = (\<lambda>request_id st.
         (Inr (find (\<lambda>row. rq_id row = request_id) (request_table st)), st)),
      ss_update_request = spec_update_request u,
      ss_delete_request = spec_delete_request u\<rparr>"

section \<open>Vocabulary of the statements\<close>

text \<open>
  The response FastAPI sends for what a handler returned or raised, on a route with the
  given success status.
\<close>

definition respond :: "nat \<Rightarrow> exn + body \<Rightarrow> response" where
  "respond status_code r =
     (case r of Inl e \<Rightarrow> exception_handler e | Inr b \<Rightarrow> Response status_code b)"

text \<open>
  A sequence of handler calls, each with the caller's id its dependency returned; the
  state is passed from one call to the next.
\<close>

fun is_patch :: "endpoint \<Rightarrow> bool" where
  "is_patch (PATCH_mentor_time slot_id req) = True"
| "is_patch (PATCH_student request_id req) = True"
| "is_patch ep = False"

definition run_handlers ::
  "MentorTimeService \<Rightarrow> StudentService \<Rightarrow> (endpoint \<times> uuid) list \<Rightarrow> state \<Rightarrow> state" where
  "run_handlers mts ss calls st =
     fold (\<lambda>call s. snd (handler_of mts ss (fst call) (snd call) s)) calls st"

text \<open>
  A concrete world for the instances below: one mentor, one slot on Monday from 09:00
  to 10:00, one call request; a token check that accepts a single header.
\<close>

definition example_state :: state where
  "example_state =
     \<lparr>log = [],
      mentor_table =
        [\<lparr>m_id = 5, m_telegram_id = ''tg1'', m_name = ''Alice'', m_info = ''bio''\<rparr>],
      mentor_time_table =
        [\<lparr>mt_id = 10, mt_day = Some 0, mt_time_start = Some 32400000000,
          mt_time_end = Some 36000000000, mt_mentor_id = Some 5\<rparr>],
      request_table =
        [\<lparr>rq_id = 20, rq_call_type = Some True, rq_time_sended = Some 1000,
          rq_mentor_id = Some 5, rq_guest_id = Some 7, rq_description = Some ''desc'',
          rq_call_time = Some 2000, rq_response = Some 0\<rparr>]\<rparr>"

definition example_unspecified :: unspecified where
  "example_unspecified =
     \<lparr>new_id = 30, now = 1500, default_response = 0,
      slot_not_found = (\<lambda>slot_id. ''MentorTime not found''),
      request_not_found = (\<lambda>request_id. ''Request not found''),
      empty_text = ''No mentor times found'',
      call_times = (\<lambda>day mentor_id. return [])\<rparr>"

definition example_extract_user_id :: "string option \<Rightarrow> uuid io" where
  "example_extract_user_id authorization =
     (if authorization = Some ''Bearer good'' then return 7
      else raise (HTTPException 401 ''Invalid token''))"

section \<open>Auxiliary facts\<close>

lemmas io_defs = return_def raise_def and_then_def try_except_def lift_def log_line_def

lemma logger_tables [simp]:
  "mentor_table (logger lv t a st) = mentor_table st"
  "mentor_time_table (logger lv t a st) = mentor_time_table st"
  "request_table (logger lv t a st) = request_table st"
  by (simp_all add: logger_def)

lemma spec_mts_fields [simp]:
  "mts_update_mentor_time (spec_mentor_time_service u) = spec_update_mentor_time u"
  "mts_delete_mentor_time (spec_mentor_time_service u) = spec_delete_mentor_time u"
  "mts_count_requests_for_time (spec_mentor_time_service u) = spec_count_requests_for_time"
  "mts_check_time_reservation (spec_mentor_time_service u) = spec_check_time_reservation"
  by (simp_all add: spec_mentor_time_service_def)

lemma spec_ss_fields [simp]:
  "ss_update_request (spec_student_service u) = spec_update_request u"
  "ss_delete_request (spec_student_service u) = spec_delete_request u"
  "ss_send_message_request (spec_student_service u) = spec_send_message_request u"
  "ss_send_call_request (spec_student_service u) = spec_send_call_request u"
  by (simp_all add: spec_student_service_def)

lemma serve_fst:
  "fst (serve extract_user_id mts ss authorization ep st) =
     (case extract_user_id authorization st of
        (Inl e, st1) \<Rightarrow> exception_handler e
      | (Inr user_id, st1) \<Rightarrow>
          respond (status_code_of ep) (fst (handler_of mts ss ep user_id st1)))"
  by (simp add: serve_def route_def respond_def split: prod.splits sum.splits)

lemma serve_snd:
  "snd (serve extract_user_id mts ss authorization ep st) =
     (case extract_user_id authorization st of
        (Inl e, st1) \<Rightarrow> st1
      | (Inr user_id, st1) \<Rightarrow> snd (handler_of mts ss ep user_id st1))"
  by (simp add: serve_def route_def split: prod.splits sum.splits)

text \<open>
  The four handlers with an \<^verbatim>\<open>except ValueError\<close> clause: what they return or raise,
  by what the service call did.
\<close>

lemma update_mentor_time_outcome:
  "fst (update_mentor_time mts slot_id req user_id st) =
     (case fst (mts_update_mentor_time mts slot_id (mentor_time_dict_exclude_unset req)
                  (logger INFO
                     ''User {user_id} updating mentor_time {slot_id} with {req.dict(exclude_unset=True)}''
                     [AUuid user_id, AUuid slot_id,
                      AMentorTimePatch (mentor_time_dict_exclude_unset req)] st)) of
        Inr ok \<Rightarrow> Inr (Dict [(''status'', ''ok'')])
      | Inl (ValueError m) \<Rightarrow> Inl (HTTPException 404 m)
      | Inl e \<Rightarrow> Inl (HTTPException 400 (str e)))"
  by (simp add: update_mentor_time_def io_defs split: prod.splits sum.splits exn.splits)

lemma delete_mentor_time_outcome:
  "fst (delete_mentor_time mts slot_id user_id st) =
     (case fst (mts_delete_mentor_time mts slot_id
                  (logger INFO ''User {user_id} deleting mentor_time {slot_id}''
                     [AUuid user_id, AUuid slot_id] st)) of
        Inr ok \<Rightarrow> Inr (Dict [(''status'', ''ok'')])
      | Inl (ValueError m) \<Rightarrow> Inl (HTTPException 404 m)
      | Inl e \<Rightarrow> Inl (HTTPException 400 (str e)))"
  by (simp add: delete_mentor_time_def io_defs split: prod.splits sum.splits exn.splits)

lemma update_request_outcome:
  "fst (update_request ss request_id req user_id st) =
     (case fst (ss_update_request ss request_id (request_dict_exclude_unset req)
                  (logger INFO
                     ''User {user_id} updating request {request_id} with {req.dict(exclude_unset=True)}''
                     [AUuid user_id, AUuid request_id,
                      ARequestPatch (request_dict_exclude_unset req)] st)) of
        Inr ok \<Rightarrow> Inr (Dict [(''status'', ''ok'')])
      | Inl (ValueError m) \<Rightarrow> Inl (HTTPException 404 m)
      | Inl e \<Rightarrow> Inl (HTTPException 400 (str e)))"
  by (simp add: update_request_def io_defs split: prod.splits sum.splits exn.splits)

lemma delete_request_outcome:
  "fst (delete_request ss request_id user_id st) =
     (case fst (ss_delete_request ss request_id
                  (logger INFO ''User {user_id} deleting request {request_id}''
                     [AUuid user_id, AUuid request_id] st)) of
        Inr ok \<Rightarrow> Inr (Dict [(''status'', ''ok'')])
      | Inl (ValueError m) \<Rightarrow> Inl (HTTPException 404 m)
      | Inl e \<Rightarrow> Inl (HTTPException 400 (str e)))"
  by (simp add: delete_request_def io_defs split: prod.splits sum.splits exn.splits)

lemma map_if_absent:
  "find P xs = None \<Longrightarrow> map (\<lambda>x. if P x then f x else x) xs = xs"
  by (induction xs) (auto split: if_splits)

text \<open>The tables after a PATCH handler has run on the services of the specification.\<close>

lemma update_mentor_time_tables:
  "mentor_time_table (snd (update_mentor_time (spec_mentor_time_service u) slot_id req
                             user_id st)) =
     map (\<lambda>row. if mt_id row = slot_id
                then apply_mentor_time_patch (mentor_time_dict_exclude_unset req) row
                else row) (mentor_time_table st)"
  "request_table (snd (update_mentor_time (spec_mentor_time_service u) slot_id req
                         user_id st)) = request_table st"
  by (simp_all add: update_mentor_time_def io_defs spec_update_mentor_time_def
        map_if_absent)

lemma update_request_tables:
  "request_table (snd (update_request (spec_student_service u) request_id req
                         user_id st)) =
     map (\<lambda>row. if rq_id row = request_id
                then apply_request_patch (request_dict_exclude_unset req) row
                else row) (request_table st)"
  "mentor_time_table (snd (update_request (spec_student_service u) request_id req
                             user_id st)) = mentor_time_table st"
  by (simp_all add: update_request_def io_defs spec_update_request_def map_if_absent)

section \<open>The mentor service\<close>

text \<open>
  C9: when the repository finds no mentor for an id, respectively for a telegram id,
  \<^verbatim>\<open>get_mentor_by_id\<close> and \<^verbatim>\<open>get_mentor_by_tg_id\<close> return absent as a normal result,
  raise nothing, and log one warning naming the id.
\<close>

theorem get_mentor_absent_logged_not_raised:
  "(repo_get_mentor_by_id repo mentor_id st = (Inr None, st1) \<longrightarrow>
      get_mentor_by_id repo mentor_id st =
        (Inr None, st1\<lparr>log := log st1 @
           [Log WARNING msg_mentor_id_not_found [AUuid mentor_id]]\<rparr>)) \<and>
   (repo_get_mentor_by_tg_id repo tg_id st = (Inr None, st2) \<longrightarrow>
      get_mentor_by_tg_id repo tg_id st =
        (Inr None, st2\<lparr>log := log st2 @
           [Log WARNING msg_mentor_tg_not_found [AStr tg_id]]\<rparr>))"
  by (simp add: get_mentor_by_id_def get_mentor_by_tg_id_def logger_def)

theorem get_mentor_absent_logged_not_raised_witness:
  "repo_get_mentor_by_id (table_repository 30) 6 example_state = (Inr None, example_state) \<and>
   get_mentor_by_id (table_repository 30) 6 example_state =
     (Inr None, example_state\<lparr>log := [Log WARNING msg_mentor_id_not_found [AUuid 6]]\<rparr>) \<and>
   repo_get_mentor_by_tg_id (table_repository 30) ''tg2'' example_state =
     (Inr None, example_state) \<and>
   get_mentor_by_tg_id (table_repository 30) ''tg2'' example_state =
     (Inr None, example_state\<lparr>log := [Log WARNING msg_mentor_tg_not_found [AStr ''tg2'']]\<rparr>)"
  using get_mentor_absent_logged_not_raised
    [where repo = "table_repository 30" and mentor_id = 6 and st = example_state
       and ?st1.0 = example_state and tg_id = "''tg2''" and ?st2.0 = example_state]
  by (simp add: table_repository_def example_state_def)

section \<open>The routes\<close>

text \<open>
  C2: on GET /student/{request\_id}, once the token is accepted, whenever the student
  service's \<^verbatim>\<open>get_request_by_id\<close> returns absent the response is 404 with the
  handler's not-found message as detail (and so not 400); the handler logs a warning.
\<close>

theorem get_by_id_absent_is_404:
  assumes "extract_user_id authorization st = (Inr user_id, st1)"
    and "ss_get_request_by_id ss request_id
           (logger INFO ''Getting request {request_id} for user {user_id}''
              [AUuid request_id, AUuid user_id] st1) = (Inr None, st2)"
  shows "serve extract_user_id mts ss authorization (GET_student_id request_id) st =
           (Response 404 (Detail msg_request_not_found),
            logger WARNING ''Request {request_id} not found'' [AUuid request_id] st2) \<and>
         status (fst (serve extract_user_id mts ss authorization
                        (GET_student_id request_id) st)) \<noteq> 400"
  using assms by (simp add: serve_def route_def get_by_id_def io_defs)

theorem get_by_id_absent_is_404_witness:
  "example_extract_user_id (Some ''Bearer good'') example_state = (Inr 7, example_state) \<and>
   fst (ss_get_request_by_id (spec_student_service example_unspecified) 21
          (logger INFO ''Getting request {request_id} for user {user_id}''
             [AUuid 21, AUuid 7] example_state)) = Inr None \<and>
   fst (serve example_extract_user_id (spec_mentor_time_service example_unspecified)
          (spec_student_service example_unspecified) (Some ''Bearer good'')
          (GET_student_id 21) example_state) =
     Response 404 (Detail msg_request_not_found)"
  using get_by_id_absent_is_404
    [where extract_user_id = example_extract_user_id
       and authorization = "Some ''Bearer good''" and st = example_state and user_id = 7
       and ?st1.0 = example_state and ss = "spec_student_service example_unspecified"
       and request_id = 21
       and ?st2.0 = "logger INFO ''Getting request {request_id} for user {user_id}''
                      [AUuid 21, AUuid 7] example_state"
       and mts = "spec_mentor_time_service example_unspecified"]
  by (simp add: example_extract_user_id_def return_def spec_student_service_def
        example_state_def logger_def)

text \<open>
  C6: every one of the fourteen routes resolves the token first. When the token check
  raises, the response is the one of that exception and the state is the one the token
  check left: no handler and no service method runs, whatever the services are.
\<close>

theorem rejected_token_runs_no_handler:
  assumes "extract_user_id authorization st = (Inl e, st1)"
  shows "serve extract_user_id mts ss authorization ep st = (exception_handler e, st1)"
  using assms by (simp add: serve_def route_def)

theorem rejected_token_runs_no_handler_witness:
  "example_extract_user_id None example_state =
     (Inl (HTTPException 401 ''Invalid token''), example_state) \<and>
   serve example_extract_user_id (spec_mentor_time_service example_unspecified)
     (spec_student_service example_unspecified) None (DELETE_mentor_time 10) example_state =
     (Response 401 (Detail ''Invalid token''), example_state)"
  using rejected_token_runs_no_handler
    [where extract_user_id = example_extract_user_id and authorization = None
       and st = example_state and e = "HTTPException 401 ''Invalid token''"
       and ?st1.0 = example_state
       and mts = "spec_mentor_time_service example_unspecified"
       and ss = "spec_student_service example_unspecified"
       and ep = "DELETE_mentor_time 10"]
  by (simp add: example_extract_user_id_def raise_def)


text \<open>
  C1, as the handlers have it: PATCH and DELETE on /mentor\_time/{slot\_id} and on
  /student/{request\_id}, once the token is accepted. Whatever the service is, the
  response is 200 with body \<^verbatim>\<open>{"status": "ok"}\<close> when the service call returns, 404
  with the error's message as detail when it raises a \<^verbatim>\<open>ValueError\<close> (the error the
  services raise for an id that does not exist, but also any other \<^verbatim>\<open>ValueError\<close>),
  and 400 with the error's text when it raises an exception of any other class. With
  the services of the specification, which raise nothing but the not-found error, the
  response is 404 with the service's not-found message exactly when no row has the
  target id, and 200 with \<^verbatim>\<open>{"status": "ok"}\<close> otherwise.
\<close>

theorem patch_delete_status_mapping:
  assumes "extract_user_id authorization st = (Inr user_id, st1)"
  shows
  "fst (serve extract_user_id mts ss authorization (PATCH_mentor_time slot_id mreq) st) =
     (case fst (mts_update_mentor_time mts slot_id (mentor_time_dict_exclude_unset mreq)
                  (logger INFO
                     ''User {user_id} updating mentor_time {slot_id} with {req.dict(exclude_unset=True)}''
                     [AUuid user_id, AUuid slot_id,
                      AMentorTimePatch (mentor_time_dict_exclude_unset mreq)] st1)) of
        Inr ok \<Rightarrow> Response 200 (Dict [(''status'', ''ok'')])
      | Inl (ValueError m) \<Rightarrow> Response 404 (Detail m)
      | Inl e \<Rightarrow> Response 400 (Detail (str e))) \<and>
   fst (serve extract_user_id mts ss authorization (DELETE_mentor_time slot_id) st) =
     (case fst (mts_delete_mentor_time mts slot_id
                  (logger INFO ''User {user_id} deleting mentor_time {slot_id}''
                     [AUuid user_id, AUuid slot_id] st1)) of
        Inr ok \<Rightarrow> Response 200 (Dict [(''status'', ''ok'')])
      | Inl (ValueError m) \<Rightarrow> Response 404 (Detail m)
      | Inl e \<Rightarrow> Response 400 (Detail (str e))) \<and>
   fst (serve extract_user_id mts ss authorization (PATCH_student request_id rreq) st) =
     (case fst (ss_update_request ss request_id (request_dict_exclude_unset rreq)
                  (logger INFO
                     ''User {user_id} updating request {request_id} with {req.dict(exclude_unset=True)}''
                     [AUuid user_id, AUuid request_id,
                      ARequestPatch (request_dict_exclude_unset rreq)] st1)) of
        Inr ok \<Rightarrow> Response 200 (Dict [(''status'', ''ok'')])
      | Inl (ValueError m) \<Rightarrow> Response 404 (Detail m)
      | Inl e \<Rightarrow> Response 400 (Detail (str e))) \<and>
   fst (serve extract_user_id mts ss authorization (DELETE_student request_id) st) =
     (case fst (ss_delete_request ss request_id
                  (logger INFO ''User {user_id} deleting request {request_id}''
                     [AUuid user_id, AUuid request_id] st1)) of
        Inr ok \<Rightarrow> Response 200 (Dict [(''status'', ''ok'')])
      | Inl (ValueError m) \<Rightarrow> Response 404 (Detail m)
      | Inl e \<Rightarrow> Response 400 (Detail (str e))) \<and>
   fst (serve extract_user_id (spec_mentor_time_service u) ss authorization
          (PATCH_mentor_time slot_id mreq) st) =
     (if find (\<lambda>row. mt_id row = slot_id) (mentor_time_table st1) = None
      then Response 404 (Detail (slot_not_found u slot_id))
      else Response 200 (Dict [(''status'', ''ok'')])) \<and>
   fst (serve extract_user_id (spec_mentor_time_service u) ss authorization
          (DELETE_mentor_time slot_id) st) =
     (if find (\<lambda>row. mt_id row = slot_id) (mentor_time_table st1) = None
      then Response 404 (Detail (slot_not_found u slot_id))
      else Response 200 (Dict [(''status'', ''ok'')])) \<and>
   fst (serve extract_user_id mts (spec_student_service u) authorization
          (PATCH_student request_id rreq) st) =
     (if find (\<lambda>row. rq_id row = request_id) (request_table st1) = None
      then Response 404 (Detail (request_not_found u request_id))
      else Response 200 (Dict [(''status'', ''ok'')])) \<and>
   fst (serve extract_user_id mts (spec_student_service u) authorization
          (DELETE_student request_id) st) =
     (if find (\<lambda>row. rq_id row = request_id) (request_table st1) = None
      then Response 404 (Detail (request_not_found u request_id))
      else Response 200 (Dict [(''status'', ''ok'')]))"
proof -
  have general:
    "fst (serve extract_user_id mts' ss' authorization ep st) =
       respond (status_code_of ep) (fst (handler_of mts' ss' ep user_id st1))"
    for mts' ss' ep
    using assms by (simp add: serve_fst)
  have m1: "respond 200 (case r of Inr ok \<Rightarrow> Inr (Dict [(''status'', ''ok'')])
              | Inl (ValueError m) \<Rightarrow> Inl (HTTPException 404 m)
              | Inl e \<Rightarrow> Inl (HTTPException 400 (str e))) =
            (case r of Inr ok \<Rightarrow> Response 200 (Dict [(''status'', ''ok'')])
              | Inl (ValueError m) \<Rightarrow> Response 404 (Detail m)
              | Inl e \<Rightarrow> Response 400 (Detail (str e)))"
    for r :: "exn + unit"
    by (simp add: respond_def split: sum.splits exn.splits)
  show ?thesis
    apply (intro conjI)
           apply (simp add: general update_mentor_time_outcome m1)
          apply (simp add: general delete_mentor_time_outcome m1)
         apply (simp add: general update_request_outcome m1)
        apply (simp add: general delete_request_outcome m1)
       apply (simp add: general update_mentor_time_outcome respond_def
        spec_update_mentor_time_def)
      apply (simp add: general delete_mentor_time_outcome respond_def
        spec_delete_mentor_time_def)
     apply (simp add: general update_request_outcome respond_def spec_update_request_def)
    apply (simp add: general delete_request_outcome respond_def spec_delete_request_def)
    done
qed

theorem patch_delete_status_mapping_witness:
  "example_extract_user_id (Some ''Bearer good'') example_state = (Inr 7, example_state) \<and>
   fst (serve example_extract_user_id (spec_mentor_time_service example_unspecified)
          (spec_student_service example_unspecified) (Some ''Bearer good'')
          (DELETE_mentor_time 11) example_state) =
     Response 404 (Detail ''MentorTime not found'') \<and>
   fst (serve example_extract_user_id (spec_mentor_time_service example_unspecified)
          (spec_student_service example_unspecified) (Some ''Bearer good'')
          (DELETE_mentor_time 10) example_state) =
     Response 200 (Dict [(''status'', ''ok'')]) \<and>
   fst (serve example_extract_user_id (spec_mentor_time_service example_unspecified)
          ((spec_student_service example_unspecified)
             \<lparr>ss_delete_request := (\<lambda>request_id. raise (Exception ''connection lost''))\<rparr>)
          (Some ''Bearer good'') (DELETE_student 20) example_state) =
     Response 400 (Detail ''connection lost'')"
  using patch_delete_status_mapping
    [where extract_user_id = example_extract_user_id
       and authorization = "Some ''Bearer good''" and st = example_state and user_id = 7
       and ?st1.0 = example_state and u = example_unspecified and slot_id = 11
       and ss = "spec_student_service example_unspecified"]
    patch_delete_status_mapping
    [where extract_user_id = example_extract_user_id
       and authorization = "Some ''Bearer good''" and st = example_state and user_id = 7
       and ?st1.0 = example_state and u = example_unspecified and slot_id = 10
       and ss = "spec_student_service example_unspecified"]
    patch_delete_status_mapping
    [where extract_user_id = example_extract_user_id
       and authorization = "Some ''Bearer good''" and st = example_state and user_id = 7
       and ?st1.0 = example_state and request_id = 20
       and mts = "spec_mentor_time_service example_unspecified"
       and ss = "(spec_student_service example_unspecified)
             \<lparr>ss_delete_request := (\<lambda>request_id. raise (Exception ''connection lost''))\<rparr>"]
  by (simp add: example_extract_user_id_def return_def raise_def example_state_def
        example_unspecified_def spec_delete_mentor_time_def spec_update_mentor_time_def
        spec_delete_request_def spec_update_request_def logger_def)

text \<open>
  C1 as it was claimed (every failure other than not-found is answered 400, an existing
  id is answered 200) does not hold: \<^verbatim>\<open>except ValueError\<close> cannot tell a not-found
  error from another \<^verbatim>\<open>ValueError\<close>. Slot 10 and request 20 exist; a service that
  rejects the new day of the slot with a \<^verbatim>\<open>ValueError\<close>, and one whose delete fails
  with pydantic's \<^verbatim>\<open>ValidationError\<close>, are both answered 404, not 400 and not 200.
\<close>

theorem other_value_error_on_existing_id_is_404:
  "map mt_id (mentor_time_table example_state) = [10] \<and>
   fst (serve example_extract_user_id
          ((spec_mentor_time_service example_unspecified)
             \<lparr>mts_update_mentor_time := (\<lambda>slot_id patch.
                  raise (ValueError ''day must be between 0 and 6''))\<rparr>)
          (spec_student_service example_unspecified) (Some ''Bearer good'')
          (PATCH_mentor_time 10 (MentorTimeUpdateRequest (Some 9) None None None {''day''}))
          example_state) =
     Response 404 (Detail ''day must be between 0 and 6'') \<and>
   map rq_id (request_table example_state) = [20] \<and>
   fst (serve example_extract_user_id (spec_mentor_time_service example_unspecified)
          ((spec_student_service example_unspecified)
             \<lparr>ss_delete_request := (\<lambda>request_id. raise (ValidationError ''Request''))\<rparr>)
          (Some ''Bearer good'') (DELETE_student 20) example_state) =
     Response 404 (Detail ''validation error for Request'') \<and>
   status (fst (serve example_extract_user_id
          ((spec_mentor_time_service example_unspecified)
             \<lparr>mts_update_mentor_time := (\<lambda>slot_id patch.
                  raise (ValueError ''day must be between 0 and 6''))\<rparr>)
          (spec_student_service example_unspecified) (Some ''Bearer good'')
          (PATCH_mentor_time 10 (MentorTimeUpdateRequest (Some 9) None None None {''day''}))
          example_state)) \<noteq> 400"
  by (simp add: serve_def route_def example_extract_user_id_def example_state_def
        update_mentor_time_def delete_request_def io_defs ValidationError_def)


text \<open>
  C3: a PATCH on a slot or on a request, once the token is accepted, with the update
  of the specification. In every row with the target id, each field named in the
  body's \<open>fields_set\<close> takes the value the body gave and each field not named there
  keeps its stored value; every other row is unchanged.
\<close>

theorem patch_applies_exactly_supplied_fields:
  assumes "extract_user_id authorization st = (Inr user_id, st1)"
  shows
  "mentor_time_table (snd (serve extract_user_id (spec_mentor_time_service u) ss
                             authorization (PATCH_mentor_time slot_id mreq) st)) =
     map (\<lambda>row. if mt_id row = slot_id
                then row\<lparr>mt_day := (if ''day'' \<in> mtu_fields_set mreq
                                      then mtu_day mreq else mt_day row),
                         mt_time_start := (if ''time_start'' \<in> mtu_fields_set mreq
                                      then mtu_time_start mreq else mt_time_start row),
                         mt_time_end := (if ''time_end'' \<in> mtu_fields_set mreq
                                      then mtu_time_end mreq else mt_time_end row),
                         mt_mentor_id := (if ''mentor_id'' \<in> mtu_fields_set mreq
                                      then mtu_mentor_id mreq else mt_mentor_id row)\<rparr>
                else row) (mentor_time_table st1) \<and>
   request_table (snd (serve extract_user_id mts (spec_student_service u)
                         authorization (PATCH_student request_id rreq) st)) =
     map (\<lambda>row. if rq_id row = request_id
                then row\<lparr>rq_call_type := (if ''call_type'' \<in> ru_fields_set rreq
                                      then ru_call_type rreq else rq_call_type row),
                         rq_mentor_id := (if ''mentor_id'' \<in> ru_fields_set rreq
                                      then ru_mentor_id rreq else rq_mentor_id row),
                         rq_guest_id := (if ''guest_id'' \<in> ru_fields_set rreq
                                      then ru_guest_id rreq else rq_guest_id row),
                         rq_description := (if ''description'' \<in> ru_fields_set rreq
                                      then ru_description rreq else rq_description row),
                         rq_call_time := (if ''call_time'' \<in> ru_fields_set rreq
                                      then ru_call_time rreq else rq_call_time row),
                         rq_response := (if ''response'' \<in> ru_fields_set rreq
                                      then ru_response rreq else rq_response row)\<rparr>
                else row) (request_table st1)"
proof -
  have a: "apply_mentor_time_patch (mentor_time_dict_exclude_unset mreq) row =
             row\<lparr>mt_day := (if ''day'' \<in> mtu_fields_set mreq
                              then mtu_day mreq else mt_day row),
                 mt_time_start := (if ''time_start'' \<in> mtu_fields_set mreq
                              then mtu_time_start mreq else mt_time_start row),
                 mt_time_end := (if ''time_end'' \<in> mtu_fields_set mreq
                              then mtu_time_end mreq else mt_time_end row),
                 mt_mentor_id := (if ''mentor_id'' \<in> mtu_fields_set mreq
                              then mtu_mentor_id mreq else mt_mentor_id row)\<rparr>" for row
    by (simp add: apply_mentor_time_patch_def mentor_time_dict_exclude_unset_def)
  have b: "apply_request_patch (request_dict_exclude_unset rreq) row =
             row\<lparr>rq_call_type := (if ''call_type'' \<in> ru_fields_set rreq
                              then ru_call_type rreq else rq_call_type row),
                 rq_mentor_id := (if ''mentor_id'' \<in> ru_fields_set rreq
                              then ru_mentor_id rreq else rq_mentor_id row),
                 rq_guest_id := (if ''guest_id'' \<in> ru_fields_set rreq
                              then ru_guest_id rreq else rq_guest_id row),
                 rq_description := (if ''description'' \<in> ru_fields_set rreq
                              then ru_description rreq else rq_description row),
                 rq_call_time := (if ''call_time'' \<in> ru_fields_set rreq
                              then ru_call_time rreq else rq_call_time row),
                 rq_response := (if ''response'' \<in> ru_fields_set rreq
                              then ru_response rreq else rq_response row)\<rparr>" for row
    by (simp add: apply_request_patch_def request_dict_exclude_unset_def)
  have c: "snd (serve extract_user_id mts' ss' authorization ep st) =
             snd (handler_of mts' ss' ep user_id st1)" for mts' ss' ep
    using assms by (simp add: serve_snd)
  show ?thesis
    unfolding c handler_of.simps update_mentor_time_tables update_request_tables a b
    by simp
qed

theorem patch_applies_exactly_supplied_fields_witness:
  "example_extract_user_id (Some ''Bearer good'') example_state = (Inr 7, example_state) \<and>
   mentor_time_table
     (snd (serve example_extract_user_id (spec_mentor_time_service example_unspecified)
             (spec_student_service example_unspecified) (Some ''Bearer good'')
             (PATCH_mentor_time 10
                (MentorTimeUpdateRequest None None (Some 39600000000) None {''time_end'' }))
             example_state)) =
     [\<lparr>mt_id = 10, mt_day = Some 0, mt_time_start = Some 32400000000,
       mt_time_end = Some 39600000000, mt_mentor_id = Some 5\<rparr>] \<and>
   request_table
     (snd (serve example_extract_user_id (spec_mentor_time_service example_unspecified)
             (spec_student_service example_unspecified) (Some ''Bearer good'')
             (PATCH_student 20
                (RequestUpdateRequest None None None None None (Some 1)
                   {''call_time'', ''response''}))
             example_state)) =
     [\<lparr>rq_id = 20, rq_call_type = Some True, rq_time_sended = Some 1000,
       rq_mentor_id = Some 5, rq_guest_id = Some 7, rq_description = Some ''desc'',
       rq_call_time = None, rq_response = Some 1\<rparr>]"
  using patch_applies_exactly_supplied_fields
    [where extract_user_id = example_extract_user_id
       and authorization = "Some ''Bearer good''" and st = example_state and user_id = 7
       and ?st1.0 = example_state and u = example_unspecified and slot_id = 10
       and mreq = "MentorTimeUpdateRequest None None (Some 39600000000) None {''time_end'' }"
       and request_id = 20
       and rreq = "RequestUpdateRequest None None None None None (Some 1)
                     {''call_time'', ''response''}"
       and ss = "spec_student_service example_unspecified"
       and mts = "spec_mentor_time_service example_unspecified"]
  by (simp add: example_extract_user_id_def return_def example_state_def)

text \<open>
  C10: no PATCH changes a primary key. After any sequence of PATCH handler calls on
  slots and on requests, with the update of the specification and whichever ids and
  bodies are given, both tables hold the same ids in the same order as before.
\<close>

theorem patches_never_change_ids:
  assumes "\<forall>call \<in> set calls. is_patch (fst call)"
  shows "map mt_id (mentor_time_table
           (run_handlers (spec_mentor_time_service u) (spec_student_service u) calls st)) =
           map mt_id (mentor_time_table st) \<and>
         map rq_id (request_table
           (run_handlers (spec_mentor_time_service u) (spec_student_service u) calls st)) =
           map rq_id (request_table st)"
  using assms
proof (induction calls arbitrary: st)
  case Nil
  show ?case by (simp add: run_handlers_def)
next
  case (Cons call calls)
  obtain ep user_id where call: "call = (ep, user_id)" by (cases call)
  let ?st1 = "snd (handler_of (spec_mentor_time_service u) (spec_student_service u) ep
                     user_id st)"
  have patch: "is_patch ep" using Cons.prems call by simp
  have mt_id_patch: "mt_id (apply_mentor_time_patch p row) = mt_id row" for p row
    by (simp add: apply_mentor_time_patch_def)
  have rq_id_patch: "rq_id (apply_request_patch q row) = rq_id row" for q row
    by (simp add: apply_request_patch_def)
  have step: "map mt_id (mentor_time_table ?st1) = map mt_id (mentor_time_table st) \<and>
              map rq_id (request_table ?st1) = map rq_id (request_table st)"
    using patch
    by (cases ep)
       (simp_all add: update_mentor_time_tables update_request_tables mt_id_patch
          rq_id_patch o_def if_distrib cong: if_cong)
  have run: "run_handlers (spec_mentor_time_service u) (spec_student_service u)
               (call # calls) st =
             run_handlers (spec_mentor_time_service u) (spec_student_service u) calls ?st1"
    by (simp add: run_handlers_def call)
  from Cons.IH [of ?st1] Cons.prems step run show ?case by simp
qed

theorem patches_never_change_ids_witness:
  "is_patch (PATCH_mentor_time 10
               (MentorTimeUpdateRequest (Some 3) None None (Some 6) {''day'', ''mentor_id''})) \<and>
   is_patch (PATCH_student 20
               (RequestUpdateRequest None None (Some 8) None None None {''guest_id''})) \<and>
   map mt_id (mentor_time_table
     (run_handlers (spec_mentor_time_service example_unspecified)
        (spec_student_service example_unspecified)
        [(PATCH_mentor_time 10
            (MentorTimeUpdateRequest (Some 3) None None (Some 6) {''day'', ''mentor_id''}), 7),
         (PATCH_student 20
            (RequestUpdateRequest None None (Some 8) None None None {''guest_id''}), 7)]
        example_state)) = [10] \<and>
   map rq_id (request_table
     (run_handlers (spec_mentor_time_service example_unspecified)
        (spec_student_service example_unspecified)
        [(PATCH_mentor_time 10
            (MentorTimeUpdateRequest (Some 3) None None (Some 6) {''day'', ''mentor_id''}), 7),
         (PATCH_student 20
            (RequestUpdateRequest None None (Some 8) None None None {''guest_id''}), 7)]
        example_state)) = [20]"
  using patches_never_change_ids
    [where u = example_unspecified and st = example_state
       and calls = "[(PATCH_mentor_time 10
            (MentorTimeUpdateRequest (Some 3) None None (Some 6) {''day'', ''mentor_id''}), 7),
         (PATCH_student 20
            (RequestUpdateRequest None None (Some 8) None None None {''guest_id''}), 7)]"]
  by (simp add: example_state_def)


lemma create_message_spec:
  "create_message (spec_student_service u) req user_id st =
     (Inr (SendMessageRequestGetResponse (new_id u)),
      (logger INFO
         ''Creating message request for user {user_id} to mentor {request_request.mentor_id}''
         [AUuid user_id, AUuid (smr_mentor_id req)] st)
        \<lparr>request_table := request_table st @
           [\<lparr>rq_id = new_id u, rq_call_type = Some False, rq_time_sended = Some (now u),
             rq_mentor_id = Some (smr_mentor_id req), rq_guest_id = Some user_id,
             rq_description = Some (smr_description req), rq_call_time = None,
             rq_response = Some (default_response u)\<rparr>]\<rparr>)"
  by (simp add: create_message_def io_defs spec_send_message_request_def)

lemma create_call_spec:
  "create_call (spec_student_service u) req user_id st =
     (Inr (SendCallRequestGetResponse (new_id u)),
      (logger INFO
         ''Creating call request for user {user_id} to mentor {request_request.mentor_id}''
         [AUuid user_id, AUuid (scr_mentor_id req)] st)
        \<lparr>request_table := request_table st @
           [\<lparr>rq_id = new_id u, rq_call_type = Some True, rq_time_sended = Some (now u),
             rq_mentor_id = Some (scr_mentor_id req), rq_guest_id = Some user_id,
             rq_description = Some (scr_description req),
             rq_call_time = Some (scr_call_time req),
             rq_response = Some (default_response u)\<rparr>]\<rparr>)"
  by (simp add: create_call_def io_defs spec_send_call_request_def)

text \<open>
  C4: POST /student/message/ and POST /student/call/, once the token is accepted, with
  the creation of the specification. Exactly one row is added to the request table, the
  response is 201 with that row's id, and the row's \<^verbatim>\<open>guest_id\<close> is the user id the
  token check returned, whatever the body is.
\<close>

theorem created_request_guest_is_caller:
  assumes "extract_user_id authorization st = (Inr user_id, st1)"
  shows
  "(\<exists>row. request_table (snd (serve extract_user_id mts (spec_student_service u)
                                 authorization (POST_student_message mreq) st)) =
             request_table st1 @ [row] \<and>
          fst (serve extract_user_id mts (spec_student_service u) authorization
                 (POST_student_message mreq) st) =
             Response 201 (SendMessageRequestGetResponse (rq_id row)) \<and>
          rq_guest_id row = Some user_id) \<and>
   (\<exists>row. request_table (snd (serve extract_user_id mts (spec_student_service u)
                                 authorization (POST_student_call creq) st)) =
             request_table st1 @ [row] \<and>
          fst (serve extract_user_id mts (spec_student_service u) authorization
                 (POST_student_call creq) st) =
             Response 201 (SendCallRequestGetResponse (rq_id row)) \<and>
          rq_guest_id row = Some user_id)"
  using assms
  by (simp add: serve_fst serve_snd respond_def create_message_spec create_call_spec)

theorem created_request_guest_is_caller_witness:
  "example_extract_user_id (Some ''Bearer good'') example_state = (Inr 7, example_state) \<and>
   map rq_guest_id (request_table
     (snd (serve example_extract_user_id (spec_mentor_time_service example_unspecified)
             (spec_student_service example_unspecified) (Some ''Bearer good'')
             (POST_student_message (SendMessageRequestPostRequest 5 ''hello''))
             example_state))) = [Some 7, Some 7] \<and>
   map rq_guest_id (request_table
     (snd (serve example_extract_user_id (spec_mentor_time_service example_unspecified)
             (spec_student_service example_unspecified) (Some ''Bearer good'')
             (POST_student_call (SendCallRequestPostRequest 5 ''call me'' 3000))
             example_state))) = [Some 7, Some 7]"
  using created_request_guest_is_caller
    [where extract_user_id = example_extract_user_id
       and authorization = "Some ''Bearer good''" and st = example_state and user_id = 7
       and ?st1.0 = example_state and u = example_unspecified
       and mts = "spec_mentor_time_service example_unspecified"
       and mreq = "SendMessageRequestPostRequest 5 ''hello''"
       and creq = "SendCallRequestPostRequest 5 ''call me'' 3000"]
  by (auto simp add: example_extract_user_id_def return_def example_state_def)

text \<open>
  C7: with the creation of the specification and the token accepted, POST
  /student/message/ answers 201 with the new id and adds the Request with that id,
  \<^verbatim>\<open>call_type\<close> false, \<^verbatim>\<open>call_time\<close> absent, \<^verbatim>\<open>time_sended\<close> the current time and the
  default \<^verbatim>\<open>response\<close>; POST /student/call/ answers 201 with the new id and adds the
  Request with \<^verbatim>\<open>call_type\<close> true and \<^verbatim>\<open>call_time\<close> the supplied value. This holds for
  every body.
\<close>

theorem message_and_call_requests_created:
  assumes "extract_user_id authorization st = (Inr user_id, st1)"
  shows
  "fst (serve extract_user_id mts (spec_student_service u) authorization
          (POST_student_message mreq) st) =
     Response 201 (SendMessageRequestGetResponse (new_id u)) \<and>
   request_table (snd (serve extract_user_id mts (spec_student_service u) authorization
                         (POST_student_message mreq) st)) =
     request_table st1 @
       [\<lparr>rq_id = new_id u, rq_call_type = Some False, rq_time_sended = Some (now u),
         rq_mentor_id = Some (smr_mentor_id mreq), rq_guest_id = Some user_id,
         rq_description = Some (smr_description mreq), rq_call_time = None,
         rq_response = Some (default_response u)\<rparr>] \<and>
   fst (serve extract_user_id mts (spec_student_service u) authorization
          (POST_student_call creq) st) =
     Response 201 (SendCallRequestGetResponse (new_id u)) \<and>
   request_table (snd (serve extract_user_id mts (spec_student_service u) authorization
                         (POST_student_call creq) st)) =
     request_table st1 @
       [\<lparr>rq_id = new_id u, rq_call_type = Some True, rq_time_sended = Some (now u),
         rq_mentor_id = Some (scr_mentor_id creq), rq_guest_id = Some user_id,
         rq_description = Some (scr_description creq),
         rq_call_time = Some (scr_call_time creq),
         rq_response = Some (default_response u)\<rparr>]"
  using assms
  by (simp add: serve_fst serve_snd respond_def create_message_spec create_call_spec)

theorem message_and_call_requests_created_witness:
  "example_extract_user_id (Some ''Bearer good'') example_state = (Inr 7, example_state) \<and>
   serve example_extract_user_id (spec_mentor_time_service example_unspecified)
     (spec_student_service example_unspecified) (Some ''Bearer good'')
     (POST_student_call (SendCallRequestPostRequest 5 ''call me'' 3000)) example_state =
     (Response 201 (SendCallRequestGetResponse 30),
      example_state
        \<lparr>log := [Log INFO
           ''Creating call request for user {user_id} to mentor {request_request.mentor_id}''
           [AUuid 7, AUuid 5]],
         request_table := request_table example_state @
           [\<lparr>rq_id = 30, rq_call_type = Some True, rq_time_sended = Some 1500,
             rq_mentor_id = Some 5, rq_guest_id = Some 7,
             rq_description = Some ''call me'', rq_call_time = Some 3000,
             rq_response = Some 0\<rparr>]\<rparr>)"
  using message_and_call_requests_created
    [where extract_user_id = example_extract_user_id
       and authorization = "Some ''Bearer good''" and st = example_state and user_id = 7
       and ?st1.0 = example_state and u = example_unspecified
       and mts = "spec_mentor_time_service example_unspecified"
       and creq = "SendCallRequestPostRequest 5 ''call me'' 3000"]
  by (simp add: example_extract_user_id_def example_state_def
        example_unspecified_def serve_def route_def create_call_def io_defs
        spec_send_call_request_def logger_def)

text \<open>
  C8: with the two reservation queries of the specification,
  \<^verbatim>\<open>check_time_reservation\<close> returns true exactly when \<^verbatim>\<open>count_requests_for_time\<close>
  returns a count above zero, for every mentor, timestamp and request table; and so,
  once the token is accepted, GET /mentor\_time/check answers \<^verbatim>\<open>status\<close> true exactly
  when GET /mentor\_time/count answers a \<^verbatim>\<open>count\<close> above zero.
\<close>

theorem check_iff_count_positive:
  assumes "extract_user_id authorization st = (Inr user_id, st1)"
  shows
  "\<exists>n. spec_count_requests_for_time mentor_id request_time st1 = (Inr n, st1) \<and>
       spec_check_time_reservation mentor_id request_time st1 = (Inr (0 < n), st1) \<and>
       fst (serve extract_user_id (spec_mentor_time_service u) ss authorization
              (GET_mentor_time_count mentor_id request_time) st) =
         Response 200 (CountMentorTimeGetRequest n) \<and>
       fst (serve extract_user_id (spec_mentor_time_service u) ss authorization
              (GET_mentor_time_check mentor_id request_time) st) =
         Response 200 (CheckMentorTimeGetRequest (0 < n))"
proof -
  have ex: "(\<exists>row \<in> set xs. P row) = (0 < int (length (filter P xs)))"
    for P :: "Request \<Rightarrow> bool" and xs
    by (simp add: filter_empty_conv)
  show ?thesis
    using assms
    by (simp add: serve_fst respond_def count_requests_def check_request_def io_defs
          spec_count_requests_for_time_def spec_check_time_reservation_def ex)
qed

theorem check_iff_count_positive_witness:
  "example_extract_user_id (Some ''Bearer good'') example_state = (Inr 7, example_state) \<and>
   fst (serve example_extract_user_id (spec_mentor_time_service example_unspecified)
          (spec_student_service example_unspecified) (Some ''Bearer good'')
          (GET_mentor_time_count 5 2000) example_state) =
     Response 200 (CountMentorTimeGetRequest 1) \<and>
   fst (serve example_extract_user_id (spec_mentor_time_service example_unspecified)
          (spec_student_service example_unspecified) (Some ''Bearer good'')
          (GET_mentor_time_check 5 2000) example_state) =
     Response 200 (CheckMentorTimeGetRequest True) \<and>
   fst (serve example_extract_user_id (spec_mentor_time_service example_unspecified)
          (spec_student_service example_unspecified) (Some ''Bearer good'')
          (GET_mentor_time_check 5 2001) example_state) =
     Response 200 (CheckMentorTimeGetRequest False)"
  using check_iff_count_positive
    [where extract_user_id = example_extract_user_id
       and authorization = "Some ''Bearer good''" and st = example_state and user_id = 7
       and ?st1.0 = example_state and u = example_unspecified and mentor_id = 5
       and request_time = 2000 and ss = "spec_student_service example_unspecified"]
    check_iff_count_positive
    [where extract_user_id = example_extract_user_id
       and authorization = "Some ''Bearer good''" and st = example_state and user_id = 7
       and ?st1.0 = example_state and u = example_unspecified and mentor_id = 5
       and request_time = 2001 and ss = "spec_student_service example_unspecified"]
  by (auto simp add: example_extract_user_id_def return_def example_state_def
        spec_count_requests_for_time_def logger_def)

text \<open>
  C5: an \<^verbatim>\<open>HTTPException\<close> raised by the service call. The handler of GET
  /mentor\_time/ lets it through with its own status (409 here); the handler of POST
  /mentor\_time/, which has no \<^verbatim>\<open>except HTTPException: raise\<close> clause, answers 400
  with \<^verbatim>\<open>str(e)\<close> as detail, and so does the handler of PATCH /student/{request\_id}.
\<close>

theorem http_exception_rewrapped_by_post_and_patch:
  "fst (serve example_extract_user_id
          ((spec_mentor_time_service example_unspecified)
             \<lparr>mts_get_all_mentor_time := raise (HTTPException 409 ''Conflict'')\<rparr>)
          (spec_student_service example_unspecified) (Some ''Bearer good'')
          GET_mentor_time example_state) =
     Response 409 (Detail ''Conflict'') \<and>
   fst (serve example_extract_user_id
          ((spec_mentor_time_service example_unspecified)
             \<lparr>mts_create_mentor_time := (\<lambda>day time_start time_end mentor_id.
                  raise (HTTPException 409 ''Conflict''))\<rparr>)
          (spec_student_service example_unspecified) (Some ''Bearer good'')
          (POST_mentor_time
             (CreateMentorTimeRequestPostRequest 0 32400000000 36000000000 5))
          example_state) =
     Response 400 (Detail (str (HTTPException 409 ''Conflict''))) \<and>
   fst (serve example_extract_user_id (spec_mentor_time_service example_unspecified)
          ((spec_student_service example_unspecified)
             \<lparr>ss_update_request := (\<lambda>request_id patch.
                  raise (HTTPException 409 ''Conflict''))\<rparr>)
          (Some ''Bearer good'')
          (PATCH_student 20
             (RequestUpdateRequest None None None None None (Some 1) {''response''}))
          example_state) =
     Response 400 (Detail (str (HTTPException 409 ''Conflict'')))"
  by (simp add: serve_def route_def example_extract_user_id_def mentor_time_get_all_def
        create_mentor_time_def update_request_def io_defs del: str.simps)

end
